theory Spec2Isabelle
  imports Complex_Main
begin

section \<open>JavaScript values used by newtab.js\<close>

text \<open>
  The three copies of the new-tab script embedded here are
  \<^item> \<open>src/extension/newtab.js\<close> (suffix \<open>_ext\<close>),
  \<^item> \<open>src/pictures/static/pictures/newtab.js\<close>, the website copy (suffix \<open>_web\<close>),
  \<^item> \<open>src/unnamed/part_006\<close>, the commented extension copy that still has the
    direct-provider fallback (suffix \<open>_p6\<close>).
  A function without suffix reads the same in the extension and the website copy.

  A JavaScript string-or-absent value (\<open>null\<close>, \<open>undefined\<close>) is a \<open>string option\<close>.
  A finite number is the rational a double stands for, and every arithmetic operation of
  the script rounds its exact result to the nearest double (\<open>double\<close>, ties to even); the
  three special values a division by zero can produce are kept apart from the finite ones.
  The exponent of \<open>double\<close> is not bounded: overflow and subnormal results do not arise for
  the dimensions the script handles, integers below \<open>2^53\<close>. Writes to localStorage are
  taken to succeed, the clock stands still during one call, and what happens when the
  browser later loads the image file is outside the model.
\<close>

definition truthy :: "string option \<Rightarrow> bool" where
  "truthy v = (case v of None \<Rightarrow> False | Some s \<Rightarrow> s \<noteq> [])"

definition jsOr :: "string option \<Rightarrow> string option \<Rightarrow> string option" where
  \<comment> \<open>\<open>a || b\<close> on string-or-absent values\<close>
  "jsOr a b = (if truthy a then a else b)"

function bitLength :: "int \<Rightarrow> int" where
  "bitLength n = (if n \<le> 0 then 0 else 1 + bitLength (n div 2))"
  by pat_completeness auto
termination
  by (relation "measure nat") auto

declare bitLength.simps [simp del]

definition pow2 :: "int \<Rightarrow> rat" where
  "pow2 k = (if 0 \<le> k then 2 ^ nat k else 1 / 2 ^ nat (- k))"

definition exponent :: "rat \<Rightarrow> int" where
  \<comment> \<open>for \<open>0 < y\<close>, the \<open>e\<close> with \<open>2^e \<le> y < 2^(e+1)\<close>\<close>
  "exponent y =
     (if 1 \<le> y then bitLength \<lfloor>y\<rfloor> - 1 else - bitLength (\<lceil>1 / y\<rceil> - 1))"

definition roundHalfEven :: "rat \<Rightarrow> int" where
  "roundHalfEven q =
     (let f = \<lfloor>q\<rfloor>; r = q - of_int f
      in if r < 1 / 2 then f else if 1 / 2 < r then f + 1 else if even f then f else f + 1)"

definition double :: "rat \<Rightarrow> rat" where
  \<comment> \<open>the double nearest to \<open>x\<close>: 53 significant bits, a tie going to the even significand\<close>
  "double x =
     (if x = 0 then 0
      else (let ulp = pow2 (exponent \<bar>x\<bar> - 52)
            in sgn x * of_int (roundHalfEven (\<bar>x\<bar> / ulp)) * ulp))"

datatype jsnum = Fin rat | PosInf | NegInf | NaN

definition js_div :: "rat \<Rightarrow> rat \<Rightarrow> jsnum" where
  \<comment> \<open>\<open>a / b\<close> on finite numbers\<close>
  "js_div a b =
     (if b \<noteq> 0 then Fin (double (a / b))
      else if a = 0 then NaN else if 0 < a then PosInf else NegInf)"

fun js_lt :: "jsnum \<Rightarrow> jsnum \<Rightarrow> bool" where
  "js_lt NaN _ = False"
| "js_lt _ NaN = False"
| "js_lt (Fin a) (Fin b) = (a < b)"
| "js_lt _ NegInf = False"
| "js_lt NegInf _ = True"
| "js_lt PosInf _ = False"
| "js_lt (Fin a) PosInf = True"

fun js_le :: "jsnum \<Rightarrow> jsnum \<Rightarrow> bool" where
  "js_le NaN _ = False"
| "js_le _ NaN = False"
| "js_le (Fin a) (Fin b) = (a \<le> b)"
| "js_le NegInf _ = True"
| "js_le _ NegInf = False"
| "js_le _ PosInf = True"
| "js_le PosInf _ = False"

fun js_absdiff :: "rat \<Rightarrow> jsnum \<Rightarrow> jsnum" where
  \<comment> \<open>\<open>Math.abs(a - b)\<close> for a finite \<open>a\<close>\<close>
  "js_absdiff a (Fin b) = Fin \<bar>double (a - b)\<bar>"
| "js_absdiff a NaN = NaN"
| "js_absdiff a _ = PosInf"

fun js_times :: "jsnum \<Rightarrow> rat \<Rightarrow> jsnum" where
  \<comment> \<open>\<open>x * c\<close> for a finite positive constant \<open>c\<close>\<close>
  "js_times (Fin a) c = Fin (double (a * c))"
| "js_times x c = x"

definition Math_round :: "rat \<Rightarrow> int" where
  \<comment> \<open>the integer nearest to the double's value, a tie going up\<close>
  "Math_round x = \<lfloor>x + 1 / 2\<rfloor>"

function natToString :: "nat \<Rightarrow> string" where
  "natToString n =
     (if n < 10 then [''0123456789'' ! n]
      else natToString (n div 10) @ [''0123456789'' ! (n mod 10)])"
  by pat_completeness auto
termination
  by (relation "measure id") auto

declare natToString.simps [simp del]

definition toFixed :: "nat \<Rightarrow> rat \<Rightarrow> string" where
  \<comment> \<open>\<open>x.toFixed(f)\<close> for \<open>\<bar>x\<bar> < 10^21\<close>: the integer \<open>n\<close> nearest to \<open>\<bar>x\<bar> * 10^f\<close> (of
      the double's exact value), the larger one at a tie, printed with \<open>f\<close> decimals behind
      the sign of \<open>x\<close>\<close>
  "toFixed f x =
     (let n = nat \<lfloor>\<bar>x\<bar> * 10 ^ f + 1 / 2\<rfloor>;
          whole = natToString (n div 10 ^ f);
          frac = natToString (n mod 10 ^ f)
      in (if x < 0 then ''-'' else '''') @ whole @
         (if f = 0 then '''' else ''.'' @ replicate (f - length frac) CHR ''0'' @ frac))"

fun js_toFixed :: "nat \<Rightarrow> jsnum \<Rightarrow> string" where
  "js_toFixed f (Fin x) = toFixed f x"
| "js_toFixed f PosInf = ''Infinity''"
| "js_toFixed f NegInf = ''-Infinity''"
| "js_toFixed f NaN = ''NaN''"

section \<open>Display fitting: calculateOptimalDisplay\<close>

datatype jsval = JNum rat | JStr string

record display =
  objectFit :: string
  objectPosition :: string
  scale :: jsval
  mode :: string
  displayWidth :: int
  displayHeight :: int

definition noDimensions :: "string \<Rightarrow> nat \<Rightarrow> nat \<Rightarrow> display" where
  \<comment> \<open>the early return for \<open>!imageWidth || !imageHeight\<close>; only the label differs between copies\<close>
  "noDimensions label viewportWidth viewportHeight =
     \<lparr>objectFit = ''cover'', objectPosition = ''center'', scale = JNum 1, mode = label,
      displayWidth = int viewportWidth, displayHeight = int viewportHeight\<rparr>"

definition cropPercent :: "rat \<Rightarrow> rat \<Rightarrow> rat \<Rightarrow> jsnum \<Rightarrow> jsnum" where
  "cropPercent vw vh imageAspect viewportAspect =
     (if js_lt viewportAspect (Fin imageAspect)
      then (let scaledHeight = double (vw / imageAspect)
            in js_times (js_div (double (vh - scaledHeight)) vh) 100)
      else (let scaledWidth = double (vh * imageAspect)
            in js_times (js_div (double (vw - scaledWidth)) vw) 100))"

definition fitKnown :: "nat \<Rightarrow> nat \<Rightarrow> nat \<Rightarrow> nat \<Rightarrow> display" where
  \<comment> \<open>website copy, lines 398-488, for image dimensions that are both non-zero; the
      literals \<open>0.9\<close>, \<open>1.1\<close>, \<open>0.67\<close> and \<open>0.1\<close> are the doubles nearest to them\<close>
  "fitKnown viewportWidth viewportHeight imageWidth imageHeight =
     (let vw = rat_of_nat viewportWidth; vh = rat_of_nat viewportHeight;
          iw = rat_of_nat imageWidth; ih = rat_of_nat imageHeight;
          viewportAspect = js_div vw vh;
          imageAspect = double (iw / ih);
          aspectRatioDiff = js_absdiff imageAspect viewportAspect;
          viewportIsWide = js_lt (Fin 1) viewportAspect;
          imageIsWide = (1 < imageAspect);
          squareSize = min vw vh;
          scaleToFitWidth = double (vw / iw);
          scaleToFitHeight = double (vh / ih);
          scaleToFill = max scaleToFitWidth scaleToFitHeight;
          scaleToContain = min scaleToFitWidth scaleToFitHeight;
          (fit, label, sc, dw, dh) =
            (if js_le (Fin (double (9 / 10))) viewportAspect \<and>
                js_le viewportAspect (Fin (double (11 / 10))) then
               (if 3 / 2 < imageAspect \<or> imageAspect < double (67 / 100)
                then (''cover'', ''Square Crop'', scaleToFill, squareSize, squareSize)
                else (''cover'', ''Cover (Square Viewport)'', scaleToFill, vw, vh))
             else if (viewportIsWide \<and> \<not> imageIsWide) \<or> (\<not> viewportIsWide \<and> imageIsWide) then
               (if viewportIsWide \<and> \<not> imageIsWide
                then (''contain'', ''Contain (Portrait in Landscape)'', scaleToContain,
                      double (iw * scaleToContain), double (ih * scaleToContain))
                else (''contain'', ''Contain (Landscape in Portrait)'', scaleToContain,
                      double (iw * scaleToContain), double (ih * scaleToContain)))
             else if 3 / 2 < scaleToContain then
               (''contain'', ''Contain (Upscale)'', scaleToContain,
                double (iw * scaleToContain), double (ih * scaleToContain))
             else if js_lt aspectRatioDiff (Fin (double (1 / 10))) then
               (''cover'', ''Cover (Perfect Match)'', scaleToFill, vw, vh)
             else
               (let crop = cropPercent vw vh imageAspect viewportAspect
                in if js_lt (Fin 25) crop
                   then (''contain'', ''Contain ('' @ js_toFixed 0 crop @ ''% crop avoided)'',
                         scaleToContain, vw, vh)
                   else (''cover'', ''Cover ('' @ js_toFixed 0 crop @ ''% cropped)'',
                         scaleToFill, vw, vh)))
      in \<lparr>objectFit = fit, objectPosition = ''center'', scale = JStr (toFixed 2 sc), mode = label,
          displayWidth = Math_round dw, displayHeight = Math_round dh\<rparr>)"

definition calculateOptimalDisplay_web ::
  "nat \<Rightarrow> nat \<Rightarrow> nat option \<Rightarrow> nat option \<Rightarrow> display" where
  "calculateOptimalDisplay_web viewportWidth viewportHeight imageWidth imageHeight =
     (case (imageWidth, imageHeight) of
        (Some iw, Some ih) \<Rightarrow>
          if iw = 0 \<or> ih = 0
          then noDimensions ''Default (no dimensions)'' viewportWidth viewportHeight
          else fitKnown viewportWidth viewportHeight iw ih
      | _ \<Rightarrow> noDimensions ''Default (no dimensions)'' viewportWidth viewportHeight)"

definition calculateOptimalDisplay_ext ::
  "nat \<Rightarrow> nat \<Rightarrow> nat option \<Rightarrow> nat option \<Rightarrow> display" where
  \<comment> \<open>extension copy, lines 369-394: always cover, the viewport as displayed size\<close>
  "calculateOptimalDisplay_ext viewportWidth viewportHeight imageWidth imageHeight =
     (case (imageWidth, imageHeight) of
        (Some iw, Some ih) \<Rightarrow>
          if iw = 0 \<or> ih = 0 then noDimensions ''Cover'' viewportWidth viewportHeight
          else
            (let scaleToFitWidth = double (rat_of_nat viewportWidth / rat_of_nat iw);
                 scaleToFitHeight = double (rat_of_nat viewportHeight / rat_of_nat ih);
                 sc = max scaleToFitWidth scaleToFitHeight
             in \<lparr>objectFit = ''cover'', objectPosition = ''center'', scale = JStr (toFixed 2 sc),
                 mode = ''Cover'', displayWidth = int viewportWidth,
                 displayHeight = int viewportHeight\<rparr>)
      | _ \<Rightarrow> noDimensions ''Cover'' viewportWidth viewportHeight)"

section \<open>Objects, storage and program state\<close>

text \<open>
  One record stands for every JSON object the script handles: the backend payload, the
  provider payload, the entries of the picture lists and the normalised picture. A property
  the object does not have (or has as \<open>null\<close>) is \<open>None\<close>.
\<close>

record picdata =
  source :: "string option"
  error :: "string option"
  title :: "string option"
  date :: "string option"
  explanation :: "string option"
  processed_explanation :: "string option"
  display_explanation :: "string option"
  original_explanation :: "string option"
  simplified_explanation :: "string option"
  is_processed :: "bool option"
  media_type :: "string option"
  url :: "string option"
  hdurl :: "string option"
  image_url :: "string option"
  hd_image_url :: "string option"
  display_image_url :: "string option"
  thumbnail_url :: "string option"
  copyright :: "string option"
  source_url :: "string option"
  nasa_url :: "string option"
  image_width :: "nat option"
  image_height :: "nat option"
  image_size_mb :: "rat option"
  image_resolution :: "string option"

definition emptyObject :: picdata where
  "emptyObject =
     \<lparr>source = None, error = None, title = None, date = None, explanation = None,
      processed_explanation = None, display_explanation = None, original_explanation = None,
      simplified_explanation = None, is_processed = None, media_type = None, url = None,
      hdurl = None, image_url = None, hd_image_url = None, display_image_url = None,
      thumbnail_url = None, copyright = None, source_url = None, nasa_url = None,
      image_width = None, image_height = None, image_size_mb = None,
      image_resolution = None\<rparr>"

text \<open>An entry of the source catalog, \<open>{value, label, enabled}\<close>.\<close>

record sourceEntry =
  svalue :: string
  slabel :: "string option"
  enabled :: "bool option"

text \<open>
  A localStorage cell written with \<open>JSON.stringify\<close> is kept in parsed form; \<open>Raw s\<close> is a
  text \<open>s\<close> that \<open>JSON.parse\<close> rejects. The catalog time stamp is kept as what \<open>parseInt\<close>
  makes of the cell.
\<close>

datatype 'a jsoncell = Json 'a | Raw string

datatype stamp = Millis int | NotANumber

record storage =
  picture_cache :: "picdata jsoncell option"
  picture_cache_date :: "string option"
  picture_source :: "string option"
  info_panel_visible :: "string option"
  random_on_new_tab :: "string option"
  bing_picture_date :: "string option"
  available_sources_cache :: "sourceEntry list jsoncell option"
  available_sources_cache_date :: "stamp option"

text \<open>A \<open>select\<close> element: the values of its options and the selected value.\<close>

record selectEl =
  opts :: "string list"
  val :: string

definition setValue :: "string \<Rightarrow> selectEl \<Rightarrow> selectEl" where
  \<comment> \<open>\<open>el.value = v\<close>: a value that is no option leaves nothing selected\<close>
  "setValue v el = el\<lparr>val := (if v \<in> set (opts el) then v else [])\<rparr>"

definition setOptions :: "string list \<Rightarrow> selectEl" where
  \<comment> \<open>a rebuilt option list; the browser selects the first option\<close>
  "setOptions vs = \<lparr>opts = vs, val = (case vs of [] \<Rightarrow> [] | v # _ \<Rightarrow> v)\<rparr>"

record state =
  localStorage :: storage
  AVAILABLE_SOURCES :: "string list"
  sourceSelect :: selectEl
  bingPictureSelect :: selectEl
  requests :: "string list"
  randoms :: "rat list"

datatype 'a response = Response (ok: bool) (status: nat) (json: "'a option")

text \<open>
  What the script reads from outside: the clock, the page's host, the browser's decoding of
  character references in a \<open>textarea\<close>, and the replies of the three kinds of endpoint
  (\<open>None\<close>: the request itself fails; \<open>json = None\<close>: the body is no JSON).
\<close>

record env =
  now :: int
  today :: string
  isLocalhost :: bool
  BACKEND_API_URL :: string
  decodeEntities :: "string \<Rightarrow> string"
  sourcesApi :: "string \<Rightarrow> sourceEntry list response option"
  pictureApi :: "string \<Rightarrow> picdata response option"
  listApi :: "string \<Rightarrow> picdata list response option"

datatype error = Error string | NetworkError | SyntaxError | TypeError

definition PICTURES_API_URL :: "env \<Rightarrow> string" where
  "PICTURES_API_URL e = BACKEND_API_URL e @ ''/pictures''"

definition NASA_API_KEY :: string where
  "NASA_API_KEY = ''HDin5BLUkoDRqGGDaJVQpOuF6NR26GXGlWV3jKkE''"

definition APOD_API_URL :: string where
  "APOD_API_URL = ''https://api.nasa.gov/planetary/apod''"

definition DEFAULT_SOURCE :: string where
  "DEFAULT_SOURCE = ''apod''"

definition httpError :: "nat \<Rightarrow> error" where
  "httpError st = Error (''HTTP error! status: '' @ natToString st)"

definition logRequest :: "string \<Rightarrow> state \<Rightarrow> state" where
  "logRequest u st = st\<lparr>requests := requests st @ [u]\<rparr>"

definition Math_random :: "state \<Rightarrow> rat \<times> state" where
  "Math_random st =
     (case randoms st of [] \<Rightarrow> (0, st) | r # rs \<Rightarrow> (r, st\<lparr>randoms := rs\<rparr>))"

definition index :: "'a list \<Rightarrow> int \<Rightarrow> 'a option" where
  \<comment> \<open>\<open>xs[i]\<close>, \<open>undefined\<close> out of range\<close>
  "index xs i = (if 0 \<le> i \<and> i < int (length xs) then Some (xs ! nat i) else None)"

section \<open>Source catalog\<close>

definition enabledSources :: "sourceEntry list \<Rightarrow> sourceEntry list" where
  \<comment> \<open>\<open>sources.filter(s => s.enabled !== false)\<close>\<close>
  "enabledSources sources = filter (\<lambda>s. enabled s \<noteq> Some False) sources"

definition setAvailable :: "sourceEntry list \<Rightarrow> state \<Rightarrow> state" where
  \<comment> \<open>\<open>AVAILABLE_SOURCES = enabledSources.map(s => s.value)\<close>\<close>
  "setAvailable es st = st\<lparr>AVAILABLE_SOURCES := map svalue es\<rparr>"

definition cachedCatalogFallback :: "state \<Rightarrow> sourceEntry list \<times> state" where
  \<comment> \<open>the \<open>catch\<close> block of loadAvailableSources\<close>
  "cachedCatalogFallback st =
     (case available_sources_cache (localStorage st) of
        Some (Json sources) \<Rightarrow> (enabledSources sources, setAvailable (enabledSources sources) st)
      | _ \<Rightarrow> ([], st\<lparr>AVAILABLE_SOURCES := []\<rparr>))"

definition fetchSources :: "env \<Rightarrow> state \<Rightarrow> sourceEntry list \<times> state" where
  \<comment> \<open>the \<open>try\<close>/\<open>catch\<close> of loadAvailableSources that asks the sources endpoint\<close>
  "fetchSources e st0 =
     (let u = PICTURES_API_URL e @ ''/sources/''; st = logRequest u st0
      in case sourcesApi e u of
           Some (Response True _ (Some sources)) \<Rightarrow>
             (let st1 = setAvailable (enabledSources sources) st
              in (enabledSources sources,
                  st1\<lparr>localStorage := (localStorage st1)
                        \<lparr>available_sources_cache := Some (Json sources),
                         available_sources_cache_date := Some (Millis (now e))\<rparr>\<rparr>))
         | _ \<Rightarrow> cachedCatalogFallback st)"

definition cacheTime :: "env \<Rightarrow> int" where
  "cacheTime e = (if isLocalhost e then 10 * 1000 else 30 * 1000)"

definition loadAvailableSources :: "env \<Rightarrow> bool \<Rightarrow> state \<Rightarrow> sourceEntry list \<times> state" where
  \<comment> \<open>the recursive call \<open>loadAvailableSources(true)\<close> skips the cache check, so it is
      \<open>fetchSources\<close>\<close>
  "loadAvailableSources e forceRefresh st =
     (if forceRefresh then fetchSources e st
      else
        (case (available_sources_cache_date (localStorage st),
               available_sources_cache (localStorage st)) of
           (Some (Millis cachedDate), Some (Json sources)) \<Rightarrow>
             if now e - cachedDate < cacheTime e then
               (let st1 = setAvailable (enabledSources sources) st
                in if (case picture_source (localStorage st1) of
                         Some storedSource \<Rightarrow>
                           storedSource \<noteq> [] \<and> storedSource \<notin> set (AVAILABLE_SOURCES st1)
                       | None \<Rightarrow> False)
                   then fetchSources e st1
                   else (enabledSources sources, st1))
             else fetchSources e st
         | _ \<Rightarrow> fetchSources e st))"

section \<open>Selected source\<close>

definition setSelectedSource :: "string \<Rightarrow> state \<Rightarrow> state" where
  "setSelectedSource src st =
     st\<lparr>localStorage := (localStorage st)\<lparr>picture_source := Some src\<rparr>\<rparr>"

definition clearSelectedSource :: "state \<Rightarrow> state" where
  "clearSelectedSource st = st\<lparr>localStorage := (localStorage st)\<lparr>picture_source := None\<rparr>\<rparr>"

definition removeBingDate :: "state \<Rightarrow> state" where
  \<comment> \<open>\<open>localStorage.removeItem(BING_PICTURE_KEY)\<close>\<close>
  "removeBingDate st = st\<lparr>localStorage := (localStorage st)\<lparr>bing_picture_date := None\<rparr>\<rparr>"

definition getSelectedSource_web :: "state \<Rightarrow> string option" where
  "getSelectedSource_web st = picture_source (localStorage st)"

definition getSelectedSource_ext :: "state \<Rightarrow> string option \<times> state" where
  \<comment> \<open>extension copies: a stored source that is no longer enabled is dropped\<close>
  "getSelectedSource_ext st =
     (case picture_source (localStorage st) of
        None \<Rightarrow> (None, st)
      | Some stored \<Rightarrow>
          if stored = [] then (None, st)
          else if AVAILABLE_SOURCES st \<noteq> [] \<and> stored \<notin> set (AVAILABLE_SOURCES st) then
            (let st1 = clearSelectedSource st
             in (None, if stored = ''bing'' then removeBingDate st1 else st1))
          else (Some stored, st))"

definition randomElement :: "'a list \<Rightarrow> state \<Rightarrow> 'a option \<times> state" where
  \<comment> \<open>\<open>xs[Math.floor(Math.random() * xs.length)]\<close>\<close>
  "randomElement xs st =
     (let (r, st1) = Math_random st in (index xs \<lfloor>double (r * rat_of_nat (length xs))\<rfloor>, st1))"

definition getRandomSource_ext :: "state \<Rightarrow> string option \<times> state" where
  "getRandomSource_ext st =
     (if AVAILABLE_SOURCES st = [] then (None, st) else randomElement (AVAILABLE_SOURCES st) st)"

definition getRandomSource_web :: "state \<Rightarrow> string option \<times> state" where
  "getRandomSource_web st =
     (if AVAILABLE_SOURCES st = [] then (Some DEFAULT_SOURCE, st)
      else randomElement (AVAILABLE_SOURCES st) st)"

section \<open>Daily cache\<close>

definition NBSP :: char where
  "NBSP = CHR 0xA0"

definition sanitizeHtmlEntities :: "env \<Rightarrow> string option \<Rightarrow> string option" where
  "sanitizeHtmlEntities e text =
     (case text of
        None \<Rightarrow> None
      | Some s \<Rightarrow>
          if s = [] then text
          else Some (map (\<lambda>c. if c = NBSP then CHR '' '' else c) (decodeEntities e s)))"

fun str_includes :: "string \<Rightarrow> string \<Rightarrow> bool" where
  "str_includes [] t = (t = [])"
| "str_includes (c # cs) t = (take (length t) (c # cs) = t \<or> str_includes cs t)"

definition isCacheValid :: "env \<Rightarrow> string option \<Rightarrow> state \<Rightarrow> bool" where
  "isCacheValid e src st =
     (let cachedDate = picture_cache_date (localStorage st);
          cachedSource = picture_source (localStorage st)
      in cachedDate = Some (today e) \<and> cachedSource = src)"

definition resanitize :: "env \<Rightarrow> picdata \<Rightarrow> picdata" where
  \<comment> \<open>the object getCachedPicture builds from the parsed cache (extension and website)\<close>
  "resanitize e data =
     data\<lparr>title := sanitizeHtmlEntities e (title data),
          display_explanation :=
            (case display_explanation data of
               None \<Rightarrow> None
             | Some d \<Rightarrow>
                 if d = [] then None
                 else if str_includes d ''<a '' then Some d
                 else sanitizeHtmlEntities e (Some d)),
          original_explanation := sanitizeHtmlEntities e (original_explanation data),
          simplified_explanation := sanitizeHtmlEntities e (simplified_explanation data),
          copyright := sanitizeHtmlEntities e (copyright data)\<rparr>"

definition getCachedPicture :: "env \<Rightarrow> string option \<Rightarrow> state \<Rightarrow> error + picdata option" where
  \<comment> \<open>\<open>JSON.parse\<close> raises on a non-empty cell that is no JSON\<close>
  "getCachedPicture e src st =
     (if \<not> isCacheValid e src st then Inr None
      else
        (case picture_cache (localStorage st) of
           None \<Rightarrow> Inr None
         | Some (Raw s) \<Rightarrow> if s = [] then Inr None else Inl SyntaxError
         | Some (Json data) \<Rightarrow> Inr (Some (resanitize e data))))"

definition cachePicture :: "env \<Rightarrow> picdata \<Rightarrow> state \<Rightarrow> state" where
  "cachePicture e data st =
     (let st1 = st\<lparr>localStorage := (localStorage st)
                    \<lparr>picture_cache := Some (Json data),
                     picture_cache_date := Some (today e)\<rparr>\<rparr>
      in case source data of
           Some src \<Rightarrow> if src \<noteq> [] then setSelectedSource src st1 else st1
         | None \<Rightarrow> st1)"

section \<open>Fetching a picture\<close>

definition normalizePictureData_ext :: "picdata \<Rightarrow> string option \<Rightarrow> picdata" where
  "normalizePictureData_ext data src =
     emptyObject
       \<lparr>source := src, title := title data, date := date data,
        processed_explanation := processed_explanation data,
        display_explanation := display_explanation data,
        original_explanation := original_explanation data,
        simplified_explanation := simplified_explanation data,
        is_processed := Some (is_processed data = Some True),
        media_type := jsOr (media_type data) (Some ''image''),
        image_url := image_url data, hd_image_url := hd_image_url data,
        display_image_url := display_image_url data, thumbnail_url := thumbnail_url data,
        copyright := copyright data, source_url := source_url data,
        image_width := image_width data, image_height := image_height data,
        image_size_mb := image_size_mb data, image_resolution := image_resolution data\<rparr>"

definition normalizePictureData_p6 :: "picdata \<Rightarrow> string option \<Rightarrow> picdata" where
  "normalizePictureData_p6 data src =
     emptyObject
       \<lparr>source := src, title := title data, date := date data,
        processed_explanation := processed_explanation data,
        display_explanation :=
          jsOr (display_explanation data) (jsOr (processed_explanation data)
            (jsOr (original_explanation data) (explanation data))),
        original_explanation := jsOr (original_explanation data) (explanation data),
        simplified_explanation := simplified_explanation data,
        is_processed := Some (is_processed data = Some True),
        media_type := jsOr (media_type data) (Some ''image''),
        image_url := jsOr (image_url data) (url data),
        hd_image_url := jsOr (hd_image_url data) (hdurl data),
        display_image_url :=
          jsOr (display_image_url data) (jsOr (hd_image_url data) (jsOr (hdurl data)
            (jsOr (image_url data) (url data)))),
        thumbnail_url := thumbnail_url data,
        copyright := copyright data,
        source_url := jsOr (source_url data) (nasa_url data),
        image_width := image_width data, image_height := image_height data,
        image_size_mb := image_size_mb data, image_resolution := image_resolution data\<rparr>"

definition normalizePictureData_web :: "env \<Rightarrow> picdata \<Rightarrow> string option \<Rightarrow> picdata" where
  "normalizePictureData_web e data src =
     emptyObject
       \<lparr>source := src, title := sanitizeHtmlEntities e (title data), date := date data,
        processed_explanation := processed_explanation data,
        display_explanation :=
          jsOr (display_explanation data) (jsOr (processed_explanation data)
            (sanitizeHtmlEntities e (jsOr (original_explanation data) (explanation data)))),
        original_explanation :=
          sanitizeHtmlEntities e (jsOr (original_explanation data) (explanation data)),
        simplified_explanation := sanitizeHtmlEntities e (simplified_explanation data),
        is_processed := Some (is_processed data = Some True),
        media_type := jsOr (media_type data) (Some ''image''),
        image_url := jsOr (image_url data) (url data),
        hd_image_url := jsOr (hd_image_url data) (hdurl data),
        display_image_url :=
          jsOr (display_image_url data) (jsOr (hd_image_url data) (jsOr (hdurl data)
            (jsOr (image_url data) (url data)))),
        thumbnail_url := thumbnail_url data,
        copyright := sanitizeHtmlEntities e (copyright data),
        source_url := jsOr (source_url data) (nasa_url data),
        image_width := image_width data, image_height := image_height data,
        image_size_mb := image_size_mb data, image_resolution := image_resolution data\<rparr>"

definition noSourcesError :: error where
  "noSourcesError =
     Error ''No picture sources are currently enabled. Please enable sources in the admin panel.''"

definition resolveSource :: "string option \<Rightarrow> state \<Rightarrow> (error + string) \<times> state" where
  \<comment> \<open>extension copies, the head of fetchPicture: the source to ask for\<close>
  "resolveSource src st0 =
     (let (selectedSource, st) =
            (if truthy src then (src, st0) else getSelectedSource_ext st0)
      in case selectedSource of
           Some sel \<Rightarrow>
             if sel \<noteq> [] \<and> sel \<notin> set (AVAILABLE_SOURCES st) then
               (case AVAILABLE_SOURCES st of
                  [] \<Rightarrow> (Inl noSourcesError, st)
                | first # _ \<Rightarrow>
                    (Inr first, (setSelectedSource first st)
                                  \<lparr>sourceSelect := setValue first (sourceSelect st)\<rparr>))
             else if sel = [] then
               (case AVAILABLE_SOURCES st of
                  [] \<Rightarrow> (Inl noSourcesError, st)
                | first # _ \<Rightarrow> (Inr first, st))
             else (Inr sel, st)
         | None \<Rightarrow>
             (case AVAILABLE_SOURCES st of
                [] \<Rightarrow> (Inl noSourcesError, st)
              | first # _ \<Rightarrow> (Inr first, st)))"

definition pictureUrl :: "env \<Rightarrow> state \<Rightarrow> string option \<Rightarrow> string" where
  \<comment> \<open>the request URL; an absent source prints as \<open>null\<close> in the template\<close>
  "pictureUrl e st selectedSource =
     (let name = (case selectedSource of None \<Rightarrow> ''null'' | Some s \<Rightarrow> s);
          stored = bing_picture_date (localStorage st);
          selectedDate = (if truthy stored then (case stored of Some d \<Rightarrow> d | None \<Rightarrow> [])
                          else val (bingPictureSelect st))
      in if selectedSource = Some ''bing'' \<and> selectedDate \<noteq> []
         then PICTURES_API_URL e @ ''/date/'' @ selectedDate @ ''/bing/''
         else PICTURES_API_URL e @ ''/today/'' @ name @ ''/'')"

definition backendPicture ::
  "(picdata \<Rightarrow> string option \<Rightarrow> picdata) \<Rightarrow> picdata response option \<Rightarrow> string option
     \<Rightarrow> error + picdata" where
  \<comment> \<open>from \<open>await fetch(url)\<close> to the \<open>return\<close> or \<open>throw\<close> on the backend's reply\<close>
  "backendPicture normalise reply selectedSource =
     (case reply of
        None \<Rightarrow> Inl NetworkError
      | Some response \<Rightarrow>
          if \<not> ok response then Inl (httpError (status response))
          else
            (case json response of
               None \<Rightarrow> Inl SyntaxError
             | Some data \<Rightarrow>
                 (case error data of
                    Some msg \<Rightarrow>
                      if msg \<noteq> [] then Inl (Error msg)
                      else if truthy (title data) then Inr (normalise data selectedSource)
                      else Inl (Error ''Invalid data from backend'')
                  | None \<Rightarrow>
                      if truthy (title data) then Inr (normalise data selectedSource)
                      else Inl (Error ''Invalid data from backend''))))"

definition apodUrl :: string where
  "apodUrl = APOD_API_URL @ ''?api_key='' @ NASA_API_KEY"

definition fromProvider :: "picdata \<Rightarrow> string \<Rightarrow> picdata" where
  \<comment> \<open>the object literal built from the provider's reply, whose date is \<open>d\<close>\<close>
  "fromProvider data d =
     emptyObject
       \<lparr>title := title data, date := date data,
        display_explanation := explanation data,
        original_explanation := explanation data,
        media_type := media_type data,
        image_url := url data, hd_image_url := hdurl data,
        display_image_url := jsOr (hdurl data) (url data),
        copyright := copyright data,
        source_url := Some (''https://apod.nasa.gov/apod/ap'' @
                            drop 2 (filter (\<lambda>c. c \<noteq> CHR ''-'') d) @ ''.html'')\<rparr>"

definition providerPicture ::
  "(picdata \<Rightarrow> string option \<Rightarrow> picdata) \<Rightarrow> picdata response option \<Rightarrow> error + picdata" where
  \<comment> \<open>the inner \<open>try\<close> of the fallback; \<open>data.date.replace\<close> raises on an absent date\<close>
  "providerPicture normalise reply =
     (case reply of
        None \<Rightarrow> Inl NetworkError
      | Some response \<Rightarrow>
          if \<not> ok response then Inl (httpError (status response))
          else
            (case json response of
               None \<Rightarrow> Inl SyntaxError
             | Some data \<Rightarrow>
                 (case date data of
                    None \<Rightarrow> Inl TypeError
                  | Some d \<Rightarrow> Inr (normalise (fromProvider data d) (Some ''apod'')))))"

definition withFallback ::
  "env \<Rightarrow> (picdata \<Rightarrow> string option \<Rightarrow> picdata) \<Rightarrow> string option \<Rightarrow> state
     \<Rightarrow> (error + picdata) \<times> state" where
  \<comment> \<open>the \<open>try\<close>/\<open>catch\<close> of fetchPicture in the website copy and in part_006\<close>
  "withFallback e normalise selectedSource st0 =
     (let u = pictureUrl e st0 selectedSource; st = logRequest u st0
      in case backendPicture normalise (pictureApi e u) selectedSource of
           Inr record \<Rightarrow> (Inr record, st)
         | Inl err \<Rightarrow>
             if selectedSource = Some ''apod''
             then (providerPicture normalise (pictureApi e apodUrl), logRequest apodUrl st)
             else (Inl err, st))"

definition fetchPicture_ext :: "env \<Rightarrow> string option \<Rightarrow> state \<Rightarrow> (error + picdata) \<times> state" where
  "fetchPicture_ext e src st0 =
     (case resolveSource src st0 of
        (Inl err, st) \<Rightarrow> (Inl err, st)
      | (Inr selectedSource, st) \<Rightarrow>
          (let u = pictureUrl e st (Some selectedSource)
           in (backendPicture normalizePictureData_ext (pictureApi e u) (Some selectedSource),
               logRequest u st)))"

definition fetchPicture_p6 :: "env \<Rightarrow> string option \<Rightarrow> state \<Rightarrow> (error + picdata) \<times> state" where
  "fetchPicture_p6 e src st0 =
     (case resolveSource src st0 of
        (Inl err, st) \<Rightarrow> (Inl err, st)
      | (Inr selectedSource, st) \<Rightarrow> withFallback e normalizePictureData_p6 (Some selectedSource) st)"

definition fetchPicture_web :: "env \<Rightarrow> string option \<Rightarrow> state \<Rightarrow> (error + picdata) \<times> state" where
  "fetchPicture_web e src st =
     withFallback e (normalizePictureData_web e)
       (if truthy src then src else getSelectedSource_web st) st"

section \<open>Initialisation (extension copy)\<close>

datatype outcome = Displayed picdata | ErrorShown error

definition showError :: "state \<Rightarrow> state" where
  \<comment> \<open>showError ends in \<open>setInfoPanelVisible(true)\<close>, its only write to storage\<close>
  "showError st = st\<lparr>localStorage := (localStorage st)\<lparr>info_panel_visible := Some ''true''\<rparr>\<rparr>"

definition updateSourceSelector_ext :: "env \<Rightarrow> bool \<Rightarrow> state \<Rightarrow> state" where
  "updateSourceSelector_ext e forceRefresh st0 =
     (let (sources, st) = loadAvailableSources e forceRefresh st0;
          currentValue = val (sourceSelect st)
      in if sources = [] then st\<lparr>sourceSelect := setOptions [[]]\<rparr>
         else
           (let el = setOptions (map svalue (filter (\<lambda>s. enabled s \<noteq> Some False) sources))
            in if currentValue \<noteq> [] \<and> currentValue \<in> set (AVAILABLE_SOURCES st)
               then st\<lparr>sourceSelect := setValue currentValue el\<rparr>
               else
                 (case AVAILABLE_SOURCES st of
                    [] \<Rightarrow> st\<lparr>sourceSelect := el\<rparr>
                  | first # _ \<Rightarrow>
                      (let st1 = st\<lparr>sourceSelect := setValue first el\<rparr>
                       in if currentValue \<noteq> [] \<and> currentValue \<notin> set (AVAILABLE_SOURCES st)
                          then (let st2 = clearSelectedSource st1
                                in if currentValue = ''bing'' then removeBingDate st2 else st2)
                          else st1))))"

definition dateText :: "picdata \<Rightarrow> string" where
  \<comment> \<open>\<open>picture.date\<close> as an option value or a stored string\<close>
  "dateText p = (case date p of Some d \<Rightarrow> d | None \<Rightarrow> ''undefined'')"

definition loadBingPictures_ext :: "env \<Rightarrow> bool \<Rightarrow> state \<Rightarrow> state" where
  "loadBingPictures_ext e pickRandom st0 =
     (let u = PICTURES_API_URL e @ ''/list/bing/''; st = logRequest u st0;
          failed = setOptions [[]]
      in case listApi e u of
           Some (Response True _ (Some pictures)) \<Rightarrow>
             (let el = setOptions ([] # map dateText pictures);
                  storedDate = bing_picture_date (localStorage st)
              in if pickRandom \<and> pictures \<noteq> [] then
                   (case randomElement pictures st of
                      (Some p, st1) \<Rightarrow> st1\<lparr>bingPictureSelect := setValue (dateText p) el\<rparr>
                    | (None, st1) \<Rightarrow> st1\<lparr>bingPictureSelect := failed\<rparr>)
                 else
                   (case storedDate of
                      Some d \<Rightarrow>
                        if d \<noteq> [] then st\<lparr>bingPictureSelect := setValue d el\<rparr>
                        else
                          (case pictures of
                             [] \<Rightarrow> st\<lparr>bingPictureSelect := el\<rparr>
                           | p # _ \<Rightarrow>
                               st\<lparr>bingPictureSelect := setValue (dateText p) el,
                                  localStorage := (localStorage st)
                                    \<lparr>bing_picture_date := Some (dateText p)\<rparr>\<rparr>)
                    | None \<Rightarrow>
                        (case pictures of
                           [] \<Rightarrow> st\<lparr>bingPictureSelect := el\<rparr>
                         | p # _ \<Rightarrow>
                             st\<lparr>bingPictureSelect := setValue (dateText p) el,
                                localStorage := (localStorage st)
                                  \<lparr>bing_picture_date := Some (dateText p)\<rparr>\<rparr>)))
         | _ \<Rightarrow> st\<lparr>bingPictureSelect := failed\<rparr>)"

definition randomEnabled :: "state \<Rightarrow> bool" where
  \<comment> \<open>\<open>stored === null ? true : stored === 'true'\<close>\<close>
  "randomEnabled st =
     (case random_on_new_tab (localStorage st) of None \<Rightarrow> True | Some s \<Rightarrow> s = ''true'')"

definition noSourcesShort :: error where
  "noSourcesShort = Error ''No picture sources are currently enabled.''"

definition chooseRandom :: "state \<Rightarrow> (error + string) \<times> state" where
  \<comment> \<open>init, lines 807-815: the random-mode branch\<close>
  "chooseRandom st0 =
     (case getRandomSource_ext st0 of
        (Some src, st) \<Rightarrow>
          if src = [] then (Inl noSourcesShort, st)
          else (Inr src, st\<lparr>sourceSelect := setValue src (sourceSelect st)\<rparr>)
      | (None, st) \<Rightarrow> (Inl noSourcesShort, st))"

definition chooseStored :: "state \<Rightarrow> (error + string) \<times> state" where
  \<comment> \<open>init, lines 816-836: the branch for a persisted selection; init enters it with a
      non-empty working set only\<close>
  "chooseStored st0 =
     (case getSelectedSource_ext st0 of
        (Some stored, st) \<Rightarrow>
          (let (src, st1) =
                 (if stored \<notin> set (AVAILABLE_SOURCES st)
                  then (case AVAILABLE_SOURCES st of
                          [] \<Rightarrow> (stored, st)
                        | first # _ \<Rightarrow> (first, setSelectedSource first st))
                  else (stored, st))
           in (Inr src, st1\<lparr>sourceSelect := setValue src (sourceSelect st1)\<rparr>))
      | (None, st) \<Rightarrow>
          (case chooseRandom st of
             (Inr src, st1) \<Rightarrow> (Inr src, setSelectedSource src st1)
           | (Inl err, st1) \<Rightarrow> (Inl err, st1)))"

definition displayPicture_ext :: "picdata \<Rightarrow> error option" where
  \<comment> \<open>the one \<open>throw\<close> displayPicture can reach on an object; the rest writes to the page\<close>
  "displayPicture_ext data =
     (if jsOr (media_type data) (Some ''image'') = Some ''image'' \<and>
         \<not> truthy (display_image_url data)
      then Some (Error ''No image URL available'') else None)"

definition showPicture :: "picdata \<Rightarrow> state \<Rightarrow> outcome \<times> state" where
  "showPicture data st =
     (case displayPicture_ext data of
        Some err \<Rightarrow> (ErrorShown err, showError st)
      | None \<Rightarrow> (Displayed data, st))"

definition init_ext :: "env \<Rightarrow> state \<Rightarrow> outcome \<times> state" where
  "init_ext e st0 =
     (let st1 = updateSourceSelector_ext e (isLocalhost e) st0
      in if AVAILABLE_SOURCES st1 = [] then (ErrorShown noSourcesError, showError st1)
         else
           (case (if randomEnabled st1 then chooseRandom st1 else chooseStored st1) of
              (Inl err, st2) \<Rightarrow> (ErrorShown err, showError st2)
            | (Inr src, st2) \<Rightarrow>
                (let st3 = (if src = ''bing'' then loadBingPictures_ext e (randomEnabled st1) st2
                            else st2)
                 in case getCachedPicture e (Some src) st3 of
                      Inl err \<Rightarrow> (ErrorShown err, showError st3)
                    | Inr (Some pictureData) \<Rightarrow> showPicture pictureData st3
                    | Inr None \<Rightarrow>
                        (case fetchPicture_ext e (Some src) st3 of
                           (Inl err, st4) \<Rightarrow> (ErrorShown err, showError st4)
                         | (Inr pictureData, st4) \<Rightarrow>
                             showPicture pictureData (cachePicture e pictureData st4)))))"

section \<open>Sample environment\<close>

text \<open>
  Concrete values on which the theorems below are instantiated. \<open>basicDecode\<close> decodes the
  character references \<open>&amp;\<close>, \<open>&lt;\<close>, \<open>&gt;\<close>, \<open>&quot;\<close>, \<open>&#39;\<close> and \<open>&nbsp;\<close>, and
  leaves every other text as it is.
\<close>

definition reference :: "string \<Rightarrow> (char \<times> nat) option" where
  \<comment> \<open>the character a reference stands for, and the length of the reference behind \<open>&\<close>\<close>
  "reference cs =
     (if take 4 cs = ''amp;'' then Some (CHR ''&'', 4)
      else if take 3 cs = ''lt;'' then Some (CHR ''<'', 3)
      else if take 3 cs = ''gt;'' then Some (CHR ''>'', 3)
      else if take 5 cs = ''quot;'' then Some (CHR 0x22, 5)
      else if take 4 cs = ''#39;'' then Some (CHR 0x27, 4)
      else if take 5 cs = ''nbsp;'' then Some (NBSP, 5)
      else None)"

function basicDecode :: "string \<Rightarrow> string" where
  "basicDecode [] = []"
| "basicDecode (c # cs) =
     (if c = CHR ''&'' then
        (case reference cs of
           Some (d, n) \<Rightarrow> d # basicDecode (drop n cs)
         | None \<Rightarrow> c # basicDecode cs)
      else c # basicDecode cs)"
  by pat_completeness auto
termination
  by (relation "measure length") auto

definition emptyStorage :: storage where
  "emptyStorage =
     \<lparr>picture_cache = None, picture_cache_date = None, picture_source = None,
      info_panel_visible = None, random_on_new_tab = None, bing_picture_date = None,
      available_sources_cache = None, available_sources_cache_date = None\<rparr>"

definition freshState :: state where
  \<comment> \<open>a first page load: nothing stored, the selector showing its loading option\<close>
  "freshState =
     \<lparr>localStorage = emptyStorage, AVAILABLE_SOURCES = [''apod'', ''wikipedia'', ''bing''],
      sourceSelect = setOptions [[]], bingPictureSelect = setOptions [[]],
      requests = [], randoms = []\<rparr>"

definition catalogAB :: "sourceEntry list" where
  "catalogAB =
     [\<lparr>svalue = ''apod'', slabel = Some ''NASA APOD'', enabled = Some True\<rparr>,
      \<lparr>svalue = ''bing'', slabel = Some ''Bing POD'', enabled = Some False\<rparr>]"

definition backendReply :: picdata where
  "backendReply =
     emptyObject\<lparr>title := Some ''T'', date := Some ''2024-01-15'',
                 display_image_url := Some ''https://x/img.jpg''\<rparr>"

definition providerReply :: picdata where
  \<comment> \<open>a provider payload whose explanation holds a non-breaking space\<close>
  "providerReply =
     emptyObject\<lparr>title := Some ''T'', date := Some ''2024-01-15'',
                 explanation := Some [CHR ''E'', NBSP, CHR ''F''],
                 url := Some ''https://x/img.jpg''\<rparr>"

definition sampleEnv :: env where
  \<comment> \<open>the backend serves the catalog and a picture for every request\<close>
  "sampleEnv =
     \<lparr>now = 1793707200000, today = ''Tue Nov 03 2026'', isLocalhost = False,
      BACKEND_API_URL = ''https://picture.learntosolveit.com/api'',
      decodeEntities = basicDecode,
      sourcesApi = (\<lambda>u. Some (Response True 200 (Some catalogAB))),
      pictureApi = (\<lambda>u. Some (Response True 200 (Some backendReply))),
      listApi = (\<lambda>u. Some (Response True 200 (Some [])))\<rparr>"

definition offlineEnv :: env where
  \<comment> \<open>the backend answers 500 to everything; the provider answers \<open>providerReply\<close>\<close>
  "offlineEnv =
     sampleEnv
       \<lparr>sourcesApi := (\<lambda>u. Some (Response False 500 None)),
        pictureApi := (\<lambda>u. if u = apodUrl then Some (Response True 200 (Some providerReply))
                            else Some (Response False 500 None))\<rparr>"

definition fetchFailed :: "'a response option \<Rightarrow> bool" where
  \<comment> \<open>the request is rejected, answered with a non-success status, or its body is no JSON\<close>
  "fetchFailed reply =
     (case reply of None \<Rightarrow> True | Some response \<Rightarrow> \<not> ok response \<or> json response = None)"

definition rejectedResponse :: "picdata response \<Rightarrow> bool" where
  \<comment> \<open>a non-success status, or a success carrying an error field, or one without a title\<close>
  "rejectedResponse r =
     (\<not> ok r \<or>
      (case json r of
         None \<Rightarrow> False
       | Some data \<Rightarrow> truthy (error data) \<or> \<not> truthy (title data)))"

definition backendFails :: "picdata response option \<Rightarrow> bool" where
  \<comment> \<open>every way the backend request of fetchPicture ends in a \<open>throw\<close>\<close>
  "backendFails reply =
     (case reply of None \<Rightarrow> True | Some r \<Rightarrow> rejectedResponse r \<or> json r = None)"

definition catalogAW :: "sourceEntry list" where
  "catalogAW =
     [\<lparr>svalue = ''apod'', slabel = Some ''NASA APOD'', enabled = Some True\<rparr>,
      \<lparr>svalue = ''wikipedia'', slabel = Some ''Wikipedia POD'', enabled = None\<rparr>]"

definition twoSourceEnv :: env where
  \<comment> \<open>as \<open>sampleEnv\<close>, with two enabled sources in the catalog\<close>
  "twoSourceEnv = sampleEnv\<lparr>sourcesApi := (\<lambda>u. Some (Response True 200 (Some catalogAW)))\<rparr>"

definition firstLoad :: state where
  \<comment> \<open>a first page load whose two random draws will be 0 and 3/4\<close>
  "firstLoad = freshState\<lparr>randoms := [0, 3 / 4]\<rparr>"

definition cachedState :: state where
  \<comment> \<open>a picture of apod cached the day before, and a catalog cached long ago\<close>
  "cachedState =
     freshState\<lparr>localStorage := emptyStorage
       \<lparr>picture_cache := Some (Json (normalizePictureData_ext backendReply (Some ''apod''))),
        picture_cache_date := Some ''Mon Nov 02 2026'',
        picture_source := Some ''apod'',
        available_sources_cache := Some (Json catalogAB),
        available_sources_cache_date := Some (Millis 0)\<rparr>\<rparr>"

section \<open>Evaluation lemmas\<close>

lemma natToString_digit: "n < 10 \<Longrightarrow> natToString n = [''0123456789'' ! n]"
  by (subst natToString.simps) simp

lemma natToString_more:
  "10 \<le> n \<Longrightarrow> natToString n = natToString (n div 10) @ [''0123456789'' ! (n mod 10)]"
  by (subst natToString.simps) simp

lemma floor_rat_numeral: "\<lfloor>numeral a / numeral b :: rat\<rfloor> = numeral a div numeral b"
  by (metis floor_divide_of_int_eq of_int_numeral)

lemma ceiling_rat_numeral: "\<lceil>numeral a / numeral b :: rat\<rceil> = - (- numeral a div numeral b)"
  by (metis ceiling_divide_eq_div of_int_numeral)

lemma bitLength_0: "n \<le> 0 \<Longrightarrow> bitLength n = 0"
  by (subst bitLength.simps) simp

lemma bitLength_pos: "0 < n \<Longrightarrow> bitLength n = 1 + bitLength (n div 2)"
  by (subst bitLength.simps) simp

lemmas eval_double =
  double_def exponent_def roundHalfEven_def pow2_def Let_def bitLength_0 bitLength_pos
  floor_rat_numeral ceiling_rat_numeral

lemmas sample_defs =
  sampleEnv_def offlineEnv_def freshState_def cachedState_def emptyStorage_def catalogAB_def
  backendReply_def providerReply_def emptyObject_def setOptions_def

section \<open>Properties\<close>

subsection \<open>Daily cache, catalog and random source\<close>

text \<open>
  C1. For every source \<open>X\<close>, \<open>isCacheValid(X)\<close> is true exactly when the stored cache date
  is today's date string and the stored source (the \<open>picture_source\<close> cell) is \<open>X\<close>. So it is
  false when the cache date is another day's although the source matches, and false when the
  stored source differs on the same day.
\<close>

theorem isCacheValid_today_and_source:
  "(isCacheValid e src st \<longleftrightarrow>
      picture_cache_date (localStorage st) = Some (today e) \<and>
      picture_source (localStorage st) = src) \<and>
   (picture_cache_date (localStorage st) = Some yesterday \<and> yesterday \<noteq> today e \<and>
      picture_source (localStorage st) = Some X \<longrightarrow> \<not> isCacheValid e (Some X) st) \<and>
   (picture_cache_date (localStorage st) = Some (today e) \<and>
      picture_source (localStorage st) = Some A \<and> A \<noteq> X \<longrightarrow> \<not> isCacheValid e (Some X) st)"
  by (auto simp: isCacheValid_def)

theorem isCacheValid_today_and_source_witness:
  "\<not> isCacheValid sampleEnv (Some ''apod'') cachedState \<and>
   \<not> isCacheValid sampleEnv (Some ''wikipedia'')
       (cachedState\<lparr>localStorage := (localStorage cachedState)
          \<lparr>picture_cache_date := Some ''Tue Nov 03 2026''\<rparr>\<rparr>) \<and>
   isCacheValid sampleEnv (Some ''apod'')
       (cachedState\<lparr>localStorage := (localStorage cachedState)
          \<lparr>picture_cache_date := Some ''Tue Nov 03 2026''\<rparr>\<rparr>)"
  using isCacheValid_today_and_source [of sampleEnv "Some ''apod''"
          "cachedState\<lparr>localStorage := (localStorage cachedState)
             \<lparr>picture_cache_date := Some ''Tue Nov 03 2026''\<rparr>\<rparr>"
          "''Mon Nov 02 2026''" "''apod''" "''apod''"]
        isCacheValid_today_and_source [of sampleEnv "Some ''apod''" cachedState
          "''Mon Nov 02 2026''" "''apod''" "''apod''"]
        isCacheValid_today_and_source [of sampleEnv "Some ''wikipedia''"
          "cachedState\<lparr>localStorage := (localStorage cachedState)
             \<lparr>picture_cache_date := Some ''Tue Nov 03 2026''\<rparr>\<rparr>"
          "''Mon Nov 02 2026''" "''wikipedia''" "''apod''"]
  by (simp add: sample_defs)


lemma fetchSources_ok:
  "sourcesApi e (PICTURES_API_URL e @ ''/sources/'') = Some (Response True code (Some catalog))
   \<Longrightarrow> fst (fetchSources e st) = enabledSources catalog \<and>
       AVAILABLE_SOURCES (snd (fetchSources e st)) = map svalue (enabledSources catalog)"
  by (simp add: fetchSources_def Let_def setAvailable_def)

lemma fetchSources_requests:
  "requests (snd (fetchSources e st)) = requests st @ [PICTURES_API_URL e @ ''/sources/'']"
  by (auto simp: fetchSources_def Let_def setAvailable_def logRequest_def
        cachedCatalogFallback_def
      split: option.splits response.splits bool.splits jsoncell.splits)

lemma loadAvailableSources_cases:
  "loadAvailableSources e force st = fetchSources e st \<or>
   (\<exists>sources. available_sources_cache (localStorage st) = Some (Json sources) \<and>
      (loadAvailableSources e force st =
         fetchSources e (setAvailable (enabledSources sources) st) \<or>
       loadAvailableSources e force st =
         (enabledSources sources, setAvailable (enabledSources sources) st)))"
  by (simp add: loadAvailableSources_def Let_def
      split: option.splits stamp.splits jsoncell.splits)

lemma loadAvailableSources_asked:
  assumes "requests (snd (loadAvailableSources e force st)) \<noteq> requests st"
  shows "\<exists>st'. loadAvailableSources e force st = fetchSources e st'"
  using loadAvailableSources_cases [of e force st] assms
  by (auto simp: setAvailable_def)

lemma fetchSources_enabled:
  "\<forall>s \<in> set (fst (fetchSources e st)). enabled s \<noteq> Some False"
  by (auto simp: fetchSources_def Let_def cachedCatalogFallback_def enabledSources_def
      split: option.splits response.splits bool.splits jsoncell.splits)

text \<open>
  C5. Whenever loadAvailableSources asks the sources endpoint and the endpoint returns a
  catalog, the result is exactly the catalog's entries whose \<open>enabled\<close> flag is not \<open>false\<close>,
  in catalog order, and the working set holds their values. On every path the result
  contains no entry with \<open>enabled = false\<close>. For the catalog \<open>[{apod, true}, {bing, false}]\<close>
  the result is the apod entry alone.
\<close>

theorem loadAvailableSources_returns_enabled:
  "(sourcesApi e (PICTURES_API_URL e @ ''/sources/'') = Some (Response True code (Some catalog)) \<and>
    requests (snd (loadAvailableSources e force st)) \<noteq> requests st \<longrightarrow>
      fst (loadAvailableSources e force st) = filter (\<lambda>s. enabled s \<noteq> Some False) catalog \<and>
      AVAILABLE_SOURCES (snd (loadAvailableSources e force st)) =
        map svalue (filter (\<lambda>s. enabled s \<noteq> Some False) catalog)) \<and>
   (\<forall>s \<in> set (fst (loadAvailableSources e force st)). enabled s \<noteq> Some False)"
proof (intro conjI impI)
  assume h: "sourcesApi e (PICTURES_API_URL e @ ''/sources/'') =
               Some (Response True code (Some catalog)) \<and>
             requests (snd (loadAvailableSources e force st)) \<noteq> requests st"
  then obtain st' where st': "loadAvailableSources e force st = fetchSources e st'"
    using loadAvailableSources_asked by blast
  from h fetchSources_ok [of e code catalog st']
  show "fst (loadAvailableSources e force st) = filter (\<lambda>s. enabled s \<noteq> Some False) catalog"
    by (simp add: st' enabledSources_def)
  from h fetchSources_ok [of e code catalog st']
  show "AVAILABLE_SOURCES (snd (loadAvailableSources e force st)) =
          map svalue (filter (\<lambda>s. enabled s \<noteq> Some False) catalog)"
    by (simp add: st' enabledSources_def)
next
  from loadAvailableSources_cases [of e force st] fetchSources_enabled
  show "\<forall>s \<in> set (fst (loadAvailableSources e force st)). enabled s \<noteq> Some False"
    by (auto simp: enabledSources_def)
qed

theorem loadAvailableSources_returns_enabled_witness:
  "fst (loadAvailableSources sampleEnv True freshState) =
     [\<lparr>svalue = ''apod'', slabel = Some ''NASA APOD'', enabled = Some True\<rparr>] \<and>
   AVAILABLE_SOURCES (snd (loadAvailableSources sampleEnv True freshState)) = [''apod'']"
proof -
  have api: "sourcesApi sampleEnv (PICTURES_API_URL sampleEnv @ ''/sources/'') =
               Some (Response True 200 (Some catalogAB))"
    by (simp add: sampleEnv_def)
  have asked: "requests (snd (loadAvailableSources sampleEnv True freshState)) \<noteq>
                 requests freshState"
    by (simp add: loadAvailableSources_def fetchSources_requests)
  from loadAvailableSources_returns_enabled [of sampleEnv 200 catalogAB True freshState] api asked
  show ?thesis
    by (simp add: catalogAB_def)
qed

text \<open>
  C6. When the request to the sources endpoint fails, loadAvailableSources returns the
  entries of the cached catalog whose \<open>enabled\<close> flag is not \<open>false\<close>, in catalog order and
  whatever the age of that cache, and the working set holds their values; with no
  (parsable) cached catalog it returns the empty list and empties the working set. No error
  is raised: the function has no error result.
\<close>

theorem loadAvailableSources_offline:
  "fetchFailed (sourcesApi e (PICTURES_API_URL e @ ''/sources/'')) \<Longrightarrow>
   (available_sources_cache (localStorage st) = Some (Json catalog) \<longrightarrow>
      fst (loadAvailableSources e force st) = filter (\<lambda>s. enabled s \<noteq> Some False) catalog \<and>
      AVAILABLE_SOURCES (snd (loadAvailableSources e force st)) =
        map svalue (filter (\<lambda>s. enabled s \<noteq> Some False) catalog)) \<and>
   ((\<forall>c. available_sources_cache (localStorage st) \<noteq> Some (Json c)) \<longrightarrow>
      fst (loadAvailableSources e force st) = [] \<and>
      AVAILABLE_SOURCES (snd (loadAvailableSources e force st)) = [])"
  by (auto simp: fetchFailed_def loadAvailableSources_def fetchSources_def Let_def
        cachedCatalogFallback_def setAvailable_def logRequest_def enabledSources_def
      split: option.splits response.splits bool.splits jsoncell.splits stamp.splits)

theorem loadAvailableSources_offline_witness:
  "fetchFailed (sourcesApi offlineEnv (PICTURES_API_URL offlineEnv @ ''/sources/'')) \<and>
   available_sources_cache_date (localStorage cachedState) = Some (Millis 0) \<and>
   available_sources_cache (localStorage cachedState) =
     Some (Json [\<lparr>svalue = ''apod'', slabel = Some ''NASA APOD'', enabled = Some True\<rparr>,
                 \<lparr>svalue = ''bing'', slabel = Some ''Bing POD'', enabled = Some False\<rparr>]) \<and>
   fst (loadAvailableSources offlineEnv False cachedState) =
     [\<lparr>svalue = ''apod'', slabel = Some ''NASA APOD'', enabled = Some True\<rparr>] \<and>
   AVAILABLE_SOURCES (snd (loadAvailableSources offlineEnv False cachedState)) = [''apod''] \<and>
   fst (loadAvailableSources offlineEnv False freshState) = [] \<and>
   AVAILABLE_SOURCES (snd (loadAvailableSources offlineEnv False freshState)) = []"
proof -
  have failed: "fetchFailed (sourcesApi offlineEnv (PICTURES_API_URL offlineEnv @ ''/sources/''))"
    by (simp add: fetchFailed_def offlineEnv_def)
  have cached: "available_sources_cache (localStorage cachedState) = Some (Json catalogAB)"
    by (simp add: cachedState_def freshState_def emptyStorage_def)
  have none: "\<forall>c. available_sources_cache (localStorage freshState) \<noteq> Some (Json c)"
    by (simp add: freshState_def emptyStorage_def)
  from loadAvailableSources_offline [OF failed, of cachedState catalogAB False]
       loadAvailableSources_offline [OF failed, of freshState catalogAB False]
       failed cached none
  show ?thesis
    by (simp add: cachedState_def freshState_def emptyStorage_def catalogAB_def)
qed

text \<open>
  C10. With an empty working set the website's getRandomSource returns the default source
  \<open>apod\<close>, which is not in the working set; the extension's returns \<open>null\<close>.
\<close>

theorem getRandomSource_empty_working_set:
  "AVAILABLE_SOURCES st = [] \<Longrightarrow>
   fst (getRandomSource_web st) = Some ''apod'' \<and>
   ''apod'' \<notin> set (AVAILABLE_SOURCES st) \<and>
   fst (getRandomSource_ext st) = None"
  by (simp add: getRandomSource_web_def getRandomSource_ext_def DEFAULT_SOURCE_def)

theorem getRandomSource_empty_working_set_witness:
  "AVAILABLE_SOURCES (freshState\<lparr>AVAILABLE_SOURCES := []\<rparr>) = [] \<and>
   fst (getRandomSource_web (freshState\<lparr>AVAILABLE_SOURCES := []\<rparr>)) = Some ''apod'' \<and>
   fst (getRandomSource_ext (freshState\<lparr>AVAILABLE_SOURCES := []\<rparr>)) = None"
  using getRandomSource_empty_working_set [of "freshState\<lparr>AVAILABLE_SOURCES := []\<rparr>"]
  by simp

text \<open>
  C9. The cache has no source field of its own: cachePicture writes the record's source into
  the selected-source cell, and isCacheValid reads that cell. After caching a record of
  source \<open>A\<close>, writing \<open>B \<noteq> A\<close> as selected source the same day makes the cache valid for
  \<open>B\<close> and invalid for \<open>A\<close>, while the stored record is still the one of \<open>A\<close>.
\<close>

theorem cache_source_is_selected_source:
  "source record = Some A \<Longrightarrow> A \<noteq> [] \<Longrightarrow> A \<noteq> B \<Longrightarrow>
   picture_source (localStorage (cachePicture e record st)) = Some A \<and>
   getSelectedSource_web (cachePicture e record st) = Some A \<and>
   isCacheValid e (Some A) (cachePicture e record st) \<and>
   isCacheValid e (Some B) (setSelectedSource B (cachePicture e record st)) \<and>
   \<not> isCacheValid e (Some A) (setSelectedSource B (cachePicture e record st)) \<and>
   picture_cache (localStorage (setSelectedSource B (cachePicture e record st))) =
     Some (Json record)"
  by (simp add: cachePicture_def setSelectedSource_def isCacheValid_def
        getSelectedSource_web_def Let_def)

theorem cache_source_is_selected_source_witness:
  "isCacheValid sampleEnv (Some ''bing'')
     (setSelectedSource ''bing''
        (cachePicture sampleEnv (normalizePictureData_ext backendReply (Some ''apod'')) freshState)) \<and>
   \<not> isCacheValid sampleEnv (Some ''apod'')
     (setSelectedSource ''bing''
        (cachePicture sampleEnv (normalizePictureData_ext backendReply (Some ''apod'')) freshState)) \<and>
   picture_cache (localStorage (setSelectedSource ''bing''
        (cachePicture sampleEnv (normalizePictureData_ext backendReply (Some ''apod'')) freshState))) =
     Some (Json (normalizePictureData_ext backendReply (Some ''apod'')))"
  using cache_source_is_selected_source
    [of "normalizePictureData_ext backendReply (Some ''apod'')" "''apod''" "''bing''"
        sampleEnv freshState]
  by (simp add: normalizePictureData_ext_def emptyObject_def)

subsection \<open>Display fitting\<close>

text \<open>
  C2, as stated, fails at its own example. For the viewport 1920 x 1080 and the image
  1080 x 1920 the website copy returns the scale as the two-decimal string \<open>0.56\<close>, not the
  number \<open>min(1920/1080, 1080/1920) = 0.5625\<close>, and the displayed width 608, not
  \<open>1080 * 0.5625 = 607.5\<close>; the extension copy returns \<open>cover\<close> with the viewport as
  displayed size.
\<close>

theorem calculateOptimalDisplay_contain_counterexample:
  "calculateOptimalDisplay_web 1920 1080 (Some 1080) (Some 1920) =
     \<lparr>objectFit = ''contain'', objectPosition = ''center'', scale = JStr ''0.56'',
      mode = ''Contain (Portrait in Landscape)'', displayWidth = 608, displayHeight = 1080\<rparr> \<and>
   min (1920 / 1080) (1080 / 1920) = (9 / 16 :: rat) \<and>
   JStr ''0.56'' \<noteq> JNum (min (1920 / 1080) (1080 / 1920)) \<and>
   rat_of_int 608 \<noteq> 1080 * min (1920 / 1080) (1080 / 1920) \<and>
   calculateOptimalDisplay_ext 1920 1080 (Some 1080) (Some 1920) =
     \<lparr>objectFit = ''cover'', objectPosition = ''center'', scale = JStr ''1.78'',
      mode = ''Cover'', displayWidth = 1920, displayHeight = 1080\<rparr>"
  by (simp add: calculateOptimalDisplay_web_def calculateOptimalDisplay_ext_def fitKnown_def
        js_div_def Math_round_def toFixed_def Let_def eval_double natToString_digit
        natToString_more)

text \<open>
  C2, amended. For known (non-zero) image dimensions and a viewport that is not near-square
  (all four dimensions integers below \<open>2^53\<close>), when exactly one of viewport and image is
  landscape, the website copy returns \<open>contain\<close>; its scale is the \<open>toFixed(2)\<close> string of
  the smaller of the two double quotients \<open>viewportW/imageW\<close> and \<open>viewportH/imageH\<close>, and
  its displayed width and height are \<open>Math.round\<close> of the double products of the image
  dimensions with that minimum. The extension copy returns \<open>cover\<close> with the \<open>toFixed(2)\<close>
  string of the larger quotient and the viewport as displayed size.
\<close>

theorem calculateOptimalDisplay_opposite_orientation:
  assumes known: "0 < iw" "0 < ih"
    and range: "vw < 2 ^ 53" "vh < 2 ^ 53" "iw < 2 ^ 53" "ih < 2 ^ 53"
    and notSquare: "\<not> (js_le (Fin (double (9 / 10))) (js_div (rat_of_nat vw) (rat_of_nat vh)) \<and>
                       js_le (js_div (rat_of_nat vw) (rat_of_nat vh)) (Fin (double (11 / 10))))"
    and opposite: "js_lt (Fin 1) (js_div (rat_of_nat vw) (rat_of_nat vh)) \<noteq>
                     (1 < double (rat_of_nat iw / rat_of_nat ih))"
  shows "objectFit (calculateOptimalDisplay_web vw vh (Some iw) (Some ih)) = ''contain'' \<and>
         scale (calculateOptimalDisplay_web vw vh (Some iw) (Some ih)) =
           JStr (toFixed 2 (min (double (rat_of_nat vw / rat_of_nat iw))
                                (double (rat_of_nat vh / rat_of_nat ih)))) \<and>
         displayWidth (calculateOptimalDisplay_web vw vh (Some iw) (Some ih)) =
           Math_round (double (rat_of_nat iw *
             min (double (rat_of_nat vw / rat_of_nat iw))
                 (double (rat_of_nat vh / rat_of_nat ih)))) \<and>
         displayHeight (calculateOptimalDisplay_web vw vh (Some iw) (Some ih)) =
           Math_round (double (rat_of_nat ih *
             min (double (rat_of_nat vw / rat_of_nat iw))
                 (double (rat_of_nat vh / rat_of_nat ih)))) \<and>
         objectFit (calculateOptimalDisplay_ext vw vh (Some iw) (Some ih)) = ''cover'' \<and>
         scale (calculateOptimalDisplay_ext vw vh (Some iw) (Some ih)) =
           JStr (toFixed 2 (max (double (rat_of_nat vw / rat_of_nat iw))
                                (double (rat_of_nat vh / rat_of_nat ih)))) \<and>
         displayWidth (calculateOptimalDisplay_ext vw vh (Some iw) (Some ih)) = int vw \<and>
         displayHeight (calculateOptimalDisplay_ext vw vh (Some iw) (Some ih)) = int vh"
proof -
  have web: "calculateOptimalDisplay_web vw vh (Some iw) (Some ih) = fitKnown vw vh iw ih"
    using known by (simp add: calculateOptimalDisplay_web_def)
  from notSquare opposite show ?thesis
    unfolding web
    using known
    by (auto simp: fitKnown_def calculateOptimalDisplay_ext_def Let_def)
qed

theorem calculateOptimalDisplay_opposite_orientation_witness:
  "objectFit (calculateOptimalDisplay_web 1680 1050 (Some 1080) (Some 6000)) = ''contain'' \<and>
   scale (calculateOptimalDisplay_web 1680 1050 (Some 1080) (Some 6000)) = JStr ''0.17'' \<and>
   displayWidth (calculateOptimalDisplay_web 1680 1050 (Some 1080) (Some 6000)) = 189 \<and>
   displayHeight (calculateOptimalDisplay_web 1680 1050 (Some 1080) (Some 6000)) = 1050 \<and>
   objectFit (calculateOptimalDisplay_web 390 844 (Some 720) (Some 420)) = ''contain'' \<and>
   scale (calculateOptimalDisplay_web 390 844 (Some 720) (Some 420)) = JStr ''0.54'' \<and>
   displayWidth (calculateOptimalDisplay_web 390 844 (Some 720) (Some 420)) = 390 \<and>
   displayHeight (calculateOptimalDisplay_web 390 844 (Some 720) (Some 420)) = 227 \<and>
   objectFit (calculateOptimalDisplay_ext 390 844 (Some 720) (Some 420)) = ''cover'' \<and>
   scale (calculateOptimalDisplay_ext 390 844 (Some 720) (Some 420)) = JStr ''2.01''"
proof -
  have notSquare:
    "\<not> (js_le (Fin (double (9 / 10))) (js_div 1680 1050) \<and>
        js_le (js_div 1680 1050) (Fin (double (11 / 10))))"
    "\<not> (js_le (Fin (double (9 / 10))) (js_div 390 844) \<and>
        js_le (js_div 390 844) (Fin (double (11 / 10))))"
    by (simp_all add: js_div_def eval_double)
  have opposite:
    "js_lt (Fin 1) (js_div 1680 1050) \<noteq> (1 < double (1080 / 6000))"
    "js_lt (Fin 1) (js_div 390 844) \<noteq> (1 < double (720 / 420))"
    by (simp_all add: js_div_def eval_double)
  have vals:
    "toFixed 2 (min (double (14 / 9)) (double (7 / 40))) = ''0.17''"
    "Math_round (double (1080 * min (double (14 / 9)) (double (7 / 40)))) = 189"
    "Math_round (double (6000 * min (double (14 / 9)) (double (7 / 40)))) = 1050"
    "toFixed 2 (min (double (13 / 24)) (double (211 / 105))) = ''0.54''"
    "Math_round (double (720 * min (double (13 / 24)) (double (211 / 105)))) = 390"
    "Math_round (double (420 * min (double (13 / 24)) (double (211 / 105)))) = 227"
    "toFixed 2 (max (double (13 / 24)) (double (211 / 105))) = ''2.01''"
    by (simp_all add: Math_round_def toFixed_def Let_def eval_double natToString_digit
          natToString_more)
  from calculateOptimalDisplay_opposite_orientation [of 1080 6000 1680 1050]
       calculateOptimalDisplay_opposite_orientation [of 720 420 390 844]
       notSquare opposite
  show ?thesis
    by (simp add: vals)
qed

subsection \<open>Fetching\<close>

lemma backendPicture_isl: "isl (backendPicture n reply sel) \<longleftrightarrow> backendFails reply"
  by (auto simp: backendPicture_def backendFails_def rejectedResponse_def truthy_def
      split: option.splits)

lemma pictureUrl_today: "s \<noteq> ''bing'' \<Longrightarrow> pictureUrl e st (Some s) = PICTURES_API_URL e @ ''/today/'' @ s @ ''/''"
  by (simp add: pictureUrl_def Let_def)


lemma withFallback_apod:
  assumes "backendFails (pictureApi e (pictureUrl e st (Some ''apod'')))"
  shows "withFallback e n (Some ''apod'') st =
           (providerPicture n (pictureApi e apodUrl),
            logRequest apodUrl (logRequest (pictureUrl e st (Some ''apod'')) st))"
proof -
  from assms have "isl (backendPicture n (pictureApi e (pictureUrl e st (Some ''apod''))) (Some ''apod''))"
    by (simp add: backendPicture_isl)
  then show ?thesis
    by (auto simp: withFallback_def Let_def split: sum.splits)
qed

lemma withFallback_other:
  assumes "s \<noteq> ''apod''"
  shows "withFallback e n (Some s) st =
           (backendPicture n (pictureApi e (pictureUrl e st (Some s))) (Some s),
            logRequest (pictureUrl e st (Some s)) st)"
  using assms by (auto simp: withFallback_def Let_def split: sum.splits)

lemma resolveSource_available:
  "s \<noteq> [] \<Longrightarrow> s \<in> set (AVAILABLE_SOURCES st) \<Longrightarrow> resolveSource (Some s) st = (Inr s, st)"
  by (simp add: resolveSource_def truthy_def)








text \<open>
  C7, as stated, fails in the copies with the fallback: the backend answers apod with status
  500, the provider answers, and fetchPicture returns a record instead of raising.
\<close>

theorem fetchPicture_rejected_response_counterexample:
  "pictureApi offlineEnv (pictureUrl offlineEnv freshState (Some ''apod'')) =
     Some (Response False 500 None) \<and>
   \<not> isl (fst (fetchPicture_web offlineEnv (Some ''apod'') freshState)) \<and>
   \<not> isl (fst (fetchPicture_p6 offlineEnv (Some ''apod'') freshState)) \<and>
   map_sum id title (fst (fetchPicture_p6 offlineEnv (Some ''apod'') freshState)) = Inr (Some ''T'')"
  by (simp add: fetchPicture_web_def fetchPicture_p6_def resolveSource_def withFallback_def
        backendPicture_def providerPicture_def
        pictureUrl_def PICTURES_API_URL_def apodUrl_def APOD_API_URL_def NASA_API_KEY_def
        normalizePictureData_web_def normalizePictureData_p6_def fromProvider_def
        sanitizeHtmlEntities_def jsOr_def truthy_def NBSP_def reference_def
        offlineEnv_def sampleEnv_def freshState_def providerReply_def emptyStorage_def
        emptyObject_def setOptions_def logRequest_def httpError_def Let_def)

text \<open>
  C7, amended. A backend response with a non-success status, with a non-empty error field, or
  without a title never yields a record. The extension copy's fetchPicture raises on it. The
  website copy and part_006 raise the same error for every source but apod; for apod they
  return what the direct provider request gives, a record built from the provider's payload
  or that request's error.
\<close>

theorem fetchPicture_rejected_response:
  assumes rejected: "rejectedResponse r"
  shows "isl (backendPicture normalise (Some r) sel) \<and>
         (resolveSource src st = (Inr s, st') \<and> pictureApi e (pictureUrl e st' (Some s)) = Some r
            \<longrightarrow> isl (fst (fetchPicture_ext e src st))) \<and>
         (s \<noteq> [] \<and> pictureApi e (pictureUrl e st (Some s)) = Some r \<longrightarrow>
            fst (fetchPicture_web e (Some s) st) =
              (if s = ''apod''
               then providerPicture (normalizePictureData_web e) (pictureApi e apodUrl)
               else backendPicture (normalizePictureData_web e) (Some r) (Some s))) \<and>
         (resolveSource src st = (Inr s, st') \<and> pictureApi e (pictureUrl e st' (Some s)) = Some r
            \<longrightarrow> fst (fetchPicture_p6 e src st) =
              (if s = ''apod''
               then providerPicture normalizePictureData_p6 (pictureApi e apodUrl)
               else backendPicture normalizePictureData_p6 (Some r) (Some s)))"
proof -
  have fails: "backendFails (Some r)"
    using rejected by (simp add: backendFails_def)
  then have thrown: "isl (backendPicture n (Some r) sel')" for n sel'
    by (simp add: backendPicture_isl)
  have ext: "isl (fst (fetchPicture_ext e src st))"
    if "resolveSource src st = (Inr s, st')" "pictureApi e (pictureUrl e st' (Some s)) = Some r"
    using that thrown by (simp add: fetchPicture_ext_def Let_def)
  have fb: "fst (withFallback e n (Some s) st'') =
              (if s = ''apod'' then providerPicture n (pictureApi e apodUrl)
               else backendPicture n (Some r) (Some s))"
    if "pictureApi e (pictureUrl e st'' (Some s)) = Some r" for n st''
    using that fails withFallback_apod [of e st'' n] withFallback_other [of s e n st'']
    by (cases "s = ''apod''") simp_all
  show ?thesis
    using thrown ext fb
    by (auto simp: fetchPicture_web_def fetchPicture_p6_def truthy_def)
qed

theorem fetchPicture_rejected_response_witness:
  "isl (fst (fetchPicture_ext offlineEnv (Some ''apod'') freshState)) \<and>
   fst (fetchPicture_web offlineEnv (Some ''wikipedia'') freshState) =
     Inl (Error ''HTTP error! status: 500'') \<and>
   isl (backendPicture normalizePictureData_ext
          (Some (Response True 200 (Some (backendReply\<lparr>error := Some ''No picture available''\<rparr>))))
          (Some ''apod'')) \<and>
   isl (backendPicture normalizePictureData_ext
          (Some (Response True 200 (Some (backendReply\<lparr>title := None\<rparr>)))) (Some ''apod''))"
proof -
  have r500: "rejectedResponse (Response False 500 None)"
    by (simp add: rejectedResponse_def)
  have rerr: "rejectedResponse
                (Response True 200 (Some (backendReply\<lparr>error := Some ''No picture available''\<rparr>)))"
    by (simp add: rejectedResponse_def truthy_def)
  have rtitle: "rejectedResponse (Response True 200 (Some (backendReply\<lparr>title := None\<rparr>)))"
    by (simp add: rejectedResponse_def truthy_def backendReply_def emptyObject_def)
  have res: "resolveSource (Some ''apod'') freshState = (Inr ''apod'', freshState)"
    by (simp add: resolveSource_available freshState_def)
  have api: "pictureApi offlineEnv (pictureUrl offlineEnv freshState (Some s)) =
               Some (Response False 500 None)"
    if "s = ''apod'' \<or> s = ''wikipedia''" for s
    using that
    by (auto simp: offlineEnv_def sampleEnv_def pictureUrl_today PICTURES_API_URL_def apodUrl_def
          APOD_API_URL_def NASA_API_KEY_def)
  from fetchPicture_rejected_response [OF r500, of normalizePictureData_ext "Some ''apod''"
         "Some ''apod''" freshState "''apod''" freshState offlineEnv]
       fetchPicture_rejected_response [OF r500, of normalizePictureData_ext "Some ''apod''"
         "Some ''apod''" freshState "''wikipedia''" freshState offlineEnv]
       fetchPicture_rejected_response [OF rerr, of normalizePictureData_ext "Some ''apod''"]
       fetchPicture_rejected_response [OF rtitle, of normalizePictureData_ext "Some ''apod''"]
       res api
  show ?thesis
    by (simp add: backendPicture_def httpError_def natToString_digit natToString_more)
qed

subsection \<open>Initialisation in random mode\<close>

lemmas init_defs =
  init_ext_def updateSourceSelector_ext_def loadAvailableSources_def fetchSources_def
  cachedCatalogFallback_def enabledSources_def setAvailable_def cacheTime_def
  chooseRandom_def chooseStored_def getRandomSource_ext_def randomElement_def Math_random_def
  index_def randomEnabled_def getCachedPicture_def isCacheValid_def resanitize_def
  sanitizeHtmlEntities_def fetchPicture_ext_def resolveSource_def pictureUrl_def
  backendPicture_def normalizePictureData_ext_def cachePicture_def setSelectedSource_def
  clearSelectedSource_def removeBingDate_def showPicture_def displayPicture_ext_def showError_def
  loadBingPictures_ext_def logRequest_def setValue_def setOptions_def PICTURES_API_URL_def
  jsOr_def truthy_def Let_def

lemmas sample_defs2 =
  twoSourceEnv_def sampleEnv_def firstLoad_def freshState_def emptyStorage_def catalogAW_def
  backendReply_def emptyObject_def

lemma first_init:
  "init_ext twoSourceEnv firstLoad =
     (Displayed (normalizePictureData_ext backendReply (Some ''apod'')),
      \<lparr>localStorage = emptyStorage
         \<lparr>picture_cache := Some (Json (normalizePictureData_ext backendReply (Some ''apod''))),
          picture_cache_date := Some ''Tue Nov 03 2026'',
          picture_source := Some ''apod'',
          available_sources_cache := Some (Json catalogAW),
          available_sources_cache_date := Some (Millis 1793707200000)\<rparr>,
       AVAILABLE_SOURCES = [''apod'', ''wikipedia''],
       sourceSelect = \<lparr>opts = [''apod'', ''wikipedia''], val = ''apod''\<rparr>,
       bingPictureSelect = \<lparr>opts = [[]], val = []\<rparr>,
       requests = [''https://picture.learntosolveit.com/api/pictures/sources/'',
                   ''https://picture.learntosolveit.com/api/pictures/today/apod/''],
       randoms = [3 / 4]\<rparr>)"
  by (simp add: init_defs sample_defs2 eval_double)

text \<open>
  C3. The script's comments promise what the claim says: the random branch of init updates
  the dropdown for the random selection "(but don't save it)", and setSelectedSource is
  "used when user manually selects"; that branch indeed never calls it. The code breaks the
  promise one step later: after every fetch init calls cachePicture, which writes the
  record's source into the selected-source entry. On a first page load (nothing stored, so
  random mode is on by default) with the sources apod and wikipedia enabled, the first
  initialisation picks apod and leaves the entry at \<open>apod\<close>; the second picks wikipedia and
  leaves the entry at \<open>wikipedia\<close>.
\<close>

theorem init_random_mode_persists_pick:
  "randomEnabled firstLoad \<and>
   picture_source (localStorage firstLoad) = None \<and>
   picture_source (localStorage (snd (init_ext twoSourceEnv firstLoad))) = Some ''apod'' \<and>
   randomEnabled (snd (init_ext twoSourceEnv firstLoad)) \<and>
   picture_source (localStorage (snd (init_ext twoSourceEnv (snd (init_ext twoSourceEnv firstLoad))))) =
     Some ''wikipedia''"
  unfolding first_init
  by (simp add: init_defs sample_defs2 eval_double)

lemma fetchSources_random:
  "random_on_new_tab (localStorage (snd (fetchSources e st))) = random_on_new_tab (localStorage st)"
  by (simp add: fetchSources_def cachedCatalogFallback_def setAvailable_def logRequest_def Let_def
      split: option.splits response.splits bool.splits jsoncell.splits)

lemma loadAvailableSources_random:
  "random_on_new_tab (localStorage (snd (loadAvailableSources e f st))) =
     random_on_new_tab (localStorage st)"
  using loadAvailableSources_cases [of e f st]
    fetchSources_random [of e st]
    fetchSources_random [of e "setAvailable (enabledSources sources) st" for sources]
  by (auto simp: setAvailable_def)

lemma updateSourceSelector_random:
  "random_on_new_tab (localStorage (updateSourceSelector_ext e f st)) =
     random_on_new_tab (localStorage st)"
proof (cases "loadAvailableSources e f st")
  case (Pair sources st1)
  with loadAvailableSources_random [of e f st]
  have "random_on_new_tab (localStorage st1) = random_on_new_tab (localStorage st)"
    by simp
  with Pair show ?thesis
    by (simp add: updateSourceSelector_ext_def clearSelectedSource_def removeBingDate_def Let_def
        split: list.splits)
qed

lemma index_member: "index xs i = Some x \<Longrightarrow> x \<in> set xs"
  by (auto simp: index_def split: if_splits)

lemma chooseRandom_result:
  assumes "chooseRandom st = (Inr src, st')"
  shows "src \<noteq> [] \<and> src \<in> set (AVAILABLE_SOURCES st) \<and>
         AVAILABLE_SOURCES st' = AVAILABLE_SOURCES st \<and> localStorage st' = localStorage st"
  using assms
  by (auto simp: chooseRandom_def getRandomSource_ext_def randomElement_def Math_random_def
        Let_def
      split: prod.splits option.splits if_splits list.splits dest: index_member)

lemma chooseRandom_storage: "localStorage (snd (chooseRandom st)) = localStorage st"
  by (auto simp: chooseRandom_def getRandomSource_ext_def randomElement_def Math_random_def
        Let_def
      split: prod.splits option.splits if_splits list.splits)

lemma loadBingPictures_available:
  "AVAILABLE_SOURCES (loadBingPictures_ext e b st) = AVAILABLE_SOURCES st"
  by (auto simp: loadBingPictures_ext_def randomElement_def Math_random_def logRequest_def Let_def
      split: prod.splits option.splits response.splits bool.splits list.splits)

lemma getCachedPicture_hit:
  "getCachedPicture e (Some src) st = Inr (Some p) \<Longrightarrow>
   picture_source (localStorage st) = Some src"
  by (auto simp: getCachedPicture_def isCacheValid_def Let_def
      split: if_splits option.splits jsoncell.splits)

lemma fetchPicture_ext_source:
  assumes "src \<noteq> []" "src \<in> set (AVAILABLE_SOURCES st)"
    and "fetchPicture_ext e (Some src) st = (Inr record, st')"
  shows "source record = Some src"
proof -
  have "resolveSource (Some src) st = (Inr src, st)"
    using assms(1,2) by (simp add: resolveSource_def truthy_def)
  with assms(3) show ?thesis
    by (auto simp: fetchPicture_ext_def backendPicture_def normalizePictureData_ext_def Let_def
        split: option.splits if_splits)
qed

lemma cachePicture_source:
  "source record = Some src \<Longrightarrow> src \<noteq> [] \<Longrightarrow>
   picture_source (localStorage (cachePicture e record st)) = Some src"
  by (simp add: cachePicture_def setSelectedSource_def Let_def)

lemma showPicture_displayed:
  "fst (showPicture p st) = Displayed record \<Longrightarrow> snd (showPicture p st) = st"
  by (auto simp: showPicture_def split: option.splits)

text \<open>
  The extent of that defect. With random mode on, the selection step of init (the random
  pick and the update of the dropdown) writes nothing to storage, but every run that
  displays a picture ends with the selected-source entry equal to the source picked in that
  run: a fetched record is cached, and cachePicture writes its source into the entry; a
  cached record is served only when the entry already equals the pick.
\<close>

lemma init_random_display_persists_pick:
  assumes random: "randomEnabled st"
  shows "localStorage (snd (chooseRandom st')) = localStorage st' \<and>
         (fst (chooseRandom (updateSourceSelector_ext e (isLocalhost e) st)) = Inr src \<and>
          fst (init_ext e st) = Displayed record \<longrightarrow>
            picture_source (localStorage (snd (init_ext e st))) = Some src)"
proof (intro conjI impI)
  show "localStorage (snd (chooseRandom st')) = localStorage st'"
    by (rule chooseRandom_storage)
next
  define st1 where "st1 = updateSourceSelector_ext e (isLocalhost e) st"
  assume h: "fst (chooseRandom (updateSourceSelector_ext e (isLocalhost e) st)) = Inr src \<and>
             fst (init_ext e st) = Displayed record"
  then obtain st2 where pick: "chooseRandom st1 = (Inr src, st2)"
    unfolding st1_def by (cases "chooseRandom (updateSourceSelector_ext e (isLocalhost e) st)") auto
  from chooseRandom_result [OF pick]
  have src: "src \<noteq> []" and mem: "src \<in> set (AVAILABLE_SOURCES st1)"
    and av2: "AVAILABLE_SOURCES st2 = AVAILABLE_SOURCES st1"
    by auto
  have r1: "randomEnabled st1"
    using random by (simp add: randomEnabled_def st1_def updateSourceSelector_random)
  define st3 where
    "st3 = (if src = ''bing'' then loadBingPictures_ext e (randomEnabled st1) st2 else st2)"
  have mem3: "src \<in> set (AVAILABLE_SOURCES st3)"
    using mem av2 by (auto simp: st3_def loadBingPictures_available)
  from mem have nonempty: "AVAILABLE_SOURCES st1 \<noteq> []"
    by auto
  have run: "init_ext e st =
               (case getCachedPicture e (Some src) st3 of
                  Inl err \<Rightarrow> (ErrorShown err, showError st3)
                | Inr (Some pictureData) \<Rightarrow> showPicture pictureData st3
                | Inr None \<Rightarrow>
                    (case fetchPicture_ext e (Some src) st3 of
                       (Inl err, st4) \<Rightarrow> (ErrorShown err, showError st4)
                     | (Inr pictureData, st4) \<Rightarrow>
                         showPicture pictureData (cachePicture e pictureData st4)))"
    unfolding st3_def
    using nonempty r1 pick
    by (simp add: init_ext_def Let_def st1_def [symmetric]
        cong: sum.case_cong option.case_cong prod.case_cong)
  from h have shown: "fst (init_ext e st) = Displayed record"
    by simp
  show "picture_source (localStorage (snd (init_ext e st))) = Some src"
  proof (cases "getCachedPicture e (Some src) st3")
    case (Inl err)
    with run shown show ?thesis by simp
  next
    case (Inr cached)
    show ?thesis
    proof (cases cached)
      case (Some p)
      with Inr run shown have "snd (init_ext e st) = st3"
        by (simp add: showPicture_displayed)
      with Inr Some getCachedPicture_hit [of e src st3 p] show ?thesis
        by simp
    next
      case None
      obtain res st4 where f: "fetchPicture_ext e (Some src) st3 = (res, st4)"
        by (cases "fetchPicture_ext e (Some src) st3")
      show ?thesis
      proof (cases res)
        case (Inl err)
        with Inr None f run shown show ?thesis by simp
      next
        case (Inr p)
        with f fetchPicture_ext_source [OF src mem3, of e p st4]
        have sp: "source p = Some src" by simp
        from Inr f \<open>getCachedPicture e (Some src) st3 = Inr cached\<close> None run shown
        have "snd (init_ext e st) = cachePicture e p st4"
          by (simp add: showPicture_displayed)
        with cachePicture_source [OF sp src] show ?thesis
          by simp
      qed
    qed
  qed
qed

lemma init_random_display_persists_pick_instance:
  "randomEnabled firstLoad \<and>
   fst (chooseRandom (updateSourceSelector_ext twoSourceEnv (isLocalhost twoSourceEnv) firstLoad)) =
     Inr ''apod'' \<and>
   fst (init_ext twoSourceEnv firstLoad) =
     Displayed (normalizePictureData_ext backendReply (Some ''apod'')) \<and>
   picture_source (localStorage (snd (init_ext twoSourceEnv firstLoad))) = Some ''apod''"
proof -
  have random: "randomEnabled firstLoad"
    by (simp add: randomEnabled_def sample_defs2)
  have pick: "fst (chooseRandom
                (updateSourceSelector_ext twoSourceEnv (isLocalhost twoSourceEnv) firstLoad)) =
              Inr ''apod''"
    by (simp add: init_defs sample_defs2 eval_double)
  have shown: "fst (init_ext twoSourceEnv firstLoad) =
                 Displayed (normalizePictureData_ext backendReply (Some ''apod''))"
    by (simp add: first_init)
  from init_random_display_persists_pick [OF random, of firstLoad twoSourceEnv "''apod''"
         "normalizePictureData_ext backendReply (Some ''apod'')"] random pick shown
  show ?thesis
    by simp
qed

end
